theory Spec2Isabelle
  imports Complex_Main
begin

section \<open>Adaptive lighting: colour-temperature curve and controller\<close>

text \<open>
  A shallow embedding of \<^verbatim>\<open>components/adaptive_lightning/adaptive_lightning.cpp\<close>.

  Numbers. The C++ \<^verbatim>\<open>float\<close> and \<^verbatim>\<open>double\<close> values are modelled by \<^typ>\<open>real\<close>:
  every arithmetic operation is exact, so the rounding error of single-precision arithmetic
  and the special values (NaN, infinities) are outside this model. Two consequences:
  \<^item> Near a halfway case the single-precision evaluation can round to the neighbouring
    tenth of the one computed here. The general statements about the value of the curve
    are therefore bounds, not equations, and the statements about the controller do not
    depend on the value of the target.
  \<^item> There are two inputs on which the C++ produces a special value where the model has a
    real number: \<^verbatim>\<open>sunset == sunrise == now\<close>, where the position is 0/0, and a negative
    \<^verbatim>\<open>speed\<close> at solar noon, where \<^verbatim>\<open>std::pow(0, speed)\<close> is infinite. The theorems about
    the value of the curve and about the turn-on sequence exclude both by the hypotheses
    \<open>sunrise < sunset\<close> and \<open>0 < speed\<close>.

  \<^verbatim>\<open>time_t\<close> is modelled by \<^typ>\<open>int\<close>.
\<close>

subsection \<open>The curve\<close>

text \<open>\<^verbatim>\<open>std::fabs\<close> is \<^const>\<open>abs\<close>, \<^verbatim>\<open>std::tanh\<close> is \<^const>\<open>tanh\<close>, \<^verbatim>\<open>std::atanh\<close> is \<^const>\<open>artanh\<close>.\<close>

text \<open>\<^verbatim>\<open>std::pow\<close> on a base that is not negative: \<^verbatim>\<open>pow(x, 0)\<close> is 1 for every \<^verbatim>\<open>x\<close>,
  also for \<^verbatim>\<open>x = 0\<close>, where \<^term>\<open>(0::real) powr 0\<close> is 0.\<close>

definition pow :: "real \<Rightarrow> real \<Rightarrow> real" where
  "pow x y = (if y = 0 then 1 else x powr y)"

text \<open>\<^verbatim>\<open>std::roundf\<close>: to the nearest integer, halfway cases away from zero.\<close>

definition roundf :: "real \<Rightarrow> real" where
  "roundf x = (if 0 \<le> x then of_int \<lfloor>x + 1 / 2\<rfloor> else - of_int \<lfloor>- x + 1 / 2\<rfloor>)"

text \<open>The constants of \<^verbatim>\<open>smooth_transition\<close>: \<^verbatim>\<open>y1 = 0.00001\<close>, \<^verbatim>\<open>y2 = 0.999\<close>, and the
  two statics \<^verbatim>\<open>a\<close> and \<^verbatim>\<open>b\<close> computed from them.\<close>

definition y1 :: real where
  "y1 = 1 / 100000"

definition y2 :: real where
  "y2 = 999 / 1000"

definition a :: real where
  "a = artanh (2 * y2 - 1) - artanh (2 * y1 - 1)"

definition b :: real where
  "b = - (artanh (2 * y1 - 1) / a)"

definition smooth_transition :: "real \<Rightarrow> real \<Rightarrow> real \<Rightarrow> real \<Rightarrow> real" where
  "smooth_transition x y_min y_max speed =
     (let x_adj = pow \<bar>1 - x * 2\<bar> speed
      in y_min + (y_max - y_min) * 0.5 * (tanh (a * (x_adj - b)) + 1))"

definition calc_color_temperature :: "int \<Rightarrow> int \<Rightarrow> int \<Rightarrow> real \<Rightarrow> real \<Rightarrow> real \<Rightarrow> real" where
  "calc_color_temperature now sunrise sunset min_mireds max_mireds speed =
     (if now < sunrise \<or> now > sunset then max_mireds
      else
        let position = real_of_int (now - sunrise) / real_of_int (sunset - sunrise);
            mireds = smooth_transition position min_mireds max_mireds speed
        in roundf (mireds * 10) / 10)"

subsection \<open>The controller\<close>

text \<open>
  The collaborators. \<^verbatim>\<open>light_\<close> and \<^verbatim>\<open>sun_\<close> (here without the trailing underscore, as
  are the component's fields) are pointers that may be null; what the
  component reads through them changes between calls, so both are arguments of every entry
  point: \<open>None\<close> is the null pointer, \<open>Some\<close> holds what the collaborator answers during
  the call. Of the light, the component reads \<^verbatim>\<open>remote_values\<close>; of the sun, the current
  time and today's sunrise and sunset at the configured elevations, each of which may be
  missing.
\<close>

record remote_values =
  is_on :: bool
  get_color_temperature :: real
  get_brightness :: real

record sun =
  sun_now :: int
  sun_sunrise :: "int option"
  sun_sunset :: "int option"

record collaborators =
  light :: "remote_values option"
  sun :: "sun option"

text \<open>The restore modes of an esphome switch.\<close>

datatype switch_restore_mode =
    SWITCH_ALWAYS_OFF
  | SWITCH_ALWAYS_ON
  | SWITCH_RESTORE_DEFAULT_OFF
  | SWITCH_RESTORE_DEFAULT_ON
  | SWITCH_RESTORE_INVERTED_DEFAULT_OFF
  | SWITCH_RESTORE_INVERTED_DEFAULT_ON
  | SWITCH_RESTORE_DISABLED

text \<open>The fields of \<^verbatim>\<open>AdaptiveLightningComponent\<close> that the source reads and writes;
  \<open>state\<close> is the switch state (the spec's \<open>enabled\<close>).\<close>

record component =
  min_mireds :: real
  max_mireds :: real
  speed :: real
  transition_length :: int
  restore_mode :: switch_restore_mode
  state :: bool
  last_requested_color_temp :: real
  previous_light_state :: bool

text \<open>A performed light call: what \<^verbatim>\<open>update\<close> sets on the call before \<^verbatim>\<open>perform()\<close>.
  Every entry point returns the component after the call and the light calls it performed,
  in order. What the light does with a call is the light's: the notifications it sends in
  response are further calls of \<^verbatim>\<open>handle_light_state_change\<close> and
  \<^verbatim>\<open>handle_target_state_reached\<close>, each with the values the light then reports. Log
  output is not modelled.\<close>

record light_call =
  set_color_temperature :: real
  set_brightness :: real
  set_transition_length :: "int option"

text \<open>Modelled from the spec: the three-argument \<^verbatim>\<open>calc_color_temperature\<close> that \<^verbatim>\<open>update\<close>
  calls is declared in the header, which is missing; by the spec the curve is evaluated
  with the configured minimum, maximum and speed.\<close>

definition calc_color_temperature3 :: "component \<Rightarrow> int \<Rightarrow> int \<Rightarrow> int \<Rightarrow> real" where
  "calc_color_temperature3 c now sunrise_ts sunset_ts =
     calc_color_temperature now sunrise_ts sunset_ts (min_mireds c) (max_mireds c) (speed c)"

text \<open>Modelled from the spec: \<^verbatim>\<open>force_next_update\<close> is defined in the header, which is
  missing. By the spec it makes the next evaluation bypass the skip-if-unchanged test, and
  the only state for that is the last requested temperature, whose unset value is 0
  (\<^verbatim>\<open>handle_light_state_change\<close> takes a value above 0 as set).\<close>

definition force_next_update :: "component \<Rightarrow> component" where
  "force_next_update c = c\<lparr>last_requested_color_temp := 0\<rparr>"

text \<open>\<^verbatim>\<open>publish_state\<close> of the esphome switch (one that is not inverted) stores the new
  state; the listeners it notifies are not part of the component.\<close>

definition publish_state :: "bool \<Rightarrow> component \<Rightarrow> component" where
  "publish_state st c = c\<lparr>state := st\<rparr>"

definition update :: "collaborators \<Rightarrow> component \<Rightarrow> component \<times> light_call list" where
  "update w c =
     (case light w of
        None \<Rightarrow> (c, [])
      | Some l \<Rightarrow>
     (case sun w of
        None \<Rightarrow> (c, [])
      | Some s \<Rightarrow>
          if \<not> state c then (c, [])
          else if \<not> is_on l then (c, [])
          else
            (case sun_sunrise s of
               None \<Rightarrow> (c, [])
             | Some sunrise_ts \<Rightarrow>
            (case sun_sunset s of
               None \<Rightarrow> (c, [])
             | Some sunset_ts \<Rightarrow>
                 let mireds = calc_color_temperature3 c (sun_now s) sunrise_ts sunset_ts
                 in if \<bar>mireds - last_requested_color_temp c\<bar> < 0.1 then (c, [])
                    else
                      (c\<lparr>last_requested_color_temp := mireds\<rparr>,
                       [\<lparr>set_color_temperature = mireds,
                         set_brightness = get_brightness l,
                         set_transition_length =
                           (if transition_length c > 0 then Some (transition_length c)
                            else None)\<rparr>])))))"

definition write_state :: "collaborators \<Rightarrow> bool \<Rightarrow> component \<Rightarrow> component \<times> light_call list" where
  "write_state w st c =
     (if state c \<noteq> st then
        let c1 = force_next_update c;
            c2 = publish_state st c1;
            (c3, calls) = update w c2
        in (force_next_update c3, calls)
      else (c, []))"

definition handle_light_state_change :: "collaborators \<Rightarrow> component \<Rightarrow> component \<times> light_call list" where
  "handle_light_state_change w c =
     (case light w of
        None \<Rightarrow> (c, [])
      | Some l \<Rightarrow>
          let current_state = is_on l;
              (c1, calls) =
                (if current_state then
                   let current_temp = get_color_temperature l
                   in if state c \<and> last_requested_color_temp c > 0
                           \<and> \<bar>current_temp - last_requested_color_temp c\<bar> > 0.1
                      then write_state w False c
                      else if \<not> previous_light_state c \<and> \<not> state c
                                \<and> restore_mode c = SWITCH_ALWAYS_ON
                      then write_state w True c
                      else (c, [])
                 else (c, []))
          in (c1\<lparr>previous_light_state := current_state\<rparr>, calls))"

definition handle_target_state_reached :: "collaborators \<Rightarrow> component \<Rightarrow> component \<times> light_call list" where
  "handle_target_state_reached w c =
     (case light w of
        None \<Rightarrow> (c, [])
      | Some l \<Rightarrow>
          if previous_light_state c \<and> state c then update w c else (c, []))"

subsection \<open>Scenario inputs\<close>

text \<open>
  The inputs of the spec's scenarios, used where a property is evaluated at a concrete
  input: a component configured with the range 153 to 500 mireds, speed 1, a transition of
  1000 ms and the restore mode always-on; a light with brightness 1; a day with sunrise at
  06:00 and sunset at 18:00 (seconds since midnight); and a day on which neither sunrise nor
  sunset can be determined.
\<close>

definition scenario_component :: "bool \<Rightarrow> real \<Rightarrow> bool \<Rightarrow> component" where
  "scenario_component enabled last_requested previous_on =
     \<lparr>min_mireds = 153, max_mireds = 500, speed = 1, transition_length = 1000,
      restore_mode = SWITCH_ALWAYS_ON, state = enabled,
      last_requested_color_temp = last_requested, previous_light_state = previous_on\<rparr>"

definition scenario_light :: "bool \<Rightarrow> real \<Rightarrow> remote_values" where
  "scenario_light on current_color =
     \<lparr>is_on = on, get_color_temperature = current_color, get_brightness = 1\<rparr>"

definition scenario_sun :: "int \<Rightarrow> sun" where
  "scenario_sun now = \<lparr>sun_now = now, sun_sunrise = Some 21600, sun_sunset = Some 64800\<rparr>"

definition polar_sun :: "int \<Rightarrow> sun" where
  "polar_sun now = \<lparr>sun_now = now, sun_sunrise = None, sun_sunset = None\<rparr>"

subsection \<open>Facts about the sigmoid, the rounding and the position\<close>

lemma tanh_artanh_real:
  fixes y :: real
  assumes "- 1 < y" "y < 1"
  shows "tanh (artanh y) = y"
proof -
  have "artanh (tanh (artanh y)) = artanh y"
    by (rule artanh_tanh_real)
  define z where "z = (1 + y) / (1 - y)"
  have zpos: "0 < z" using assms by (simp add: z_def)
  have e: "exp (- 2 * artanh y) = 1 / z"
    using zpos by (simp add: artanh_def z_def [symmetric] exp_minus field_simps)
  have "tanh (artanh y) = (1 - 1 / z) / (1 + 1 / z)"
    by (simp only: tanh_real_altdef e)
  also have "\<dots> = ((z - 1) / z) / ((z + 1) / z)"
    using zpos by (simp add: diff_divide_distrib add_divide_distrib)
  also have "\<dots> = (z - 1) / (z + 1)"
    using zpos by simp
  also have "\<dots> = y"
    using assms by (simp add: z_def field_simps)
  finally show ?thesis .
qed

lemma a_pos: "0 < a"
proof -
  have "tanh (artanh (2 * y1 - 1)) < tanh (artanh (2 * y2 - 1))"
    by (simp add: tanh_artanh_real y1_def y2_def)
  then have "artanh (2 * y1 - 1) < artanh (2 * y2 - 1)"
    by (simp only: tanh_real_less_iff)
  then show ?thesis by (simp add: a_def)
qed

lemma tanh_at_0: "tanh (a * (0 - b)) = 2 * y1 - 1"
proof -
  have "a * (0 - b) = artanh (2 * y1 - 1)"
    using a_pos by (simp add: b_def)
  then show ?thesis by (simp add: tanh_artanh_real y1_def)
qed

lemma tanh_at_1: "tanh (a * (1 - b)) = 2 * y2 - 1"
proof -
  have "a * (1 - b) = a + artanh (2 * y1 - 1)"
    using a_pos by (simp add: b_def algebra_simps)
  also have "\<dots> = artanh (2 * y2 - 1)"
    by (simp add: a_def)
  finally show ?thesis by (simp add: tanh_artanh_real y2_def)
qed

lemma pow_0_left: "0 < sp \<Longrightarrow> pow 0 sp = 0"
  by (simp add: pow_def)

lemma pow_1_left: "pow 1 sp = 1"
  by (simp add: pow_def)

lemma smooth_transition_noon:
  "0 < sp \<Longrightarrow> smooth_transition (1 / 2) y_min y_max sp = y_min + (y_max - y_min) * y1"
  using tanh_at_0 by (simp add: smooth_transition_def pow_0_left)

lemma smooth_transition_0:
  "smooth_transition 0 y_min y_max sp = y_min + (y_max - y_min) * y2"
  using tanh_at_1 by (simp add: smooth_transition_def pow_1_left)

lemma smooth_transition_1:
  "smooth_transition 1 y_min y_max sp = y_min + (y_max - y_min) * y2"
  using tanh_at_1 by (simp add: smooth_transition_def pow_1_left)

lemma smooth_transition_bounds:
  assumes "y_min \<le> y_max"
  shows "y_min \<le> smooth_transition x y_min y_max sp" "smooth_transition x y_min y_max sp \<le> y_max"
proof -
  let ?t = "tanh (a * (pow \<bar>1 - x * 2\<bar> sp - b))"
  have t: "- 1 < ?t" "?t < 1"
    by (rule tanh_real_gt_neg1, rule tanh_real_lt_1)
  have eq: "smooth_transition x y_min y_max sp = y_min + (y_max - y_min) * ((?t + 1) / 2)"
    by (simp add: smooth_transition_def)
  have "0 \<le> (y_max - y_min) * ((?t + 1) / 2)"
    using assms t by simp
  then show "y_min \<le> smooth_transition x y_min y_max sp"
    unfolding eq by linarith
  have "(y_max - y_min) * ((?t + 1) / 2) \<le> (y_max - y_min) * 1"
    using assms t by (intro mult_left_mono) auto
  then have "(y_max - y_min) * ((?t + 1) / 2) \<le> y_max - y_min"
    by simp
  then show "smooth_transition x y_min y_max sp \<le> y_max"
    unfolding eq by linarith
qed

lemma floor_half_bounds:
  fixes x :: real
  shows "x - 1 / 2 < of_int \<lfloor>x + 1 / 2\<rfloor>" "of_int \<lfloor>x + 1 / 2\<rfloor> \<le> x + 1 / 2"
  by linarith+

lemma roundf_close: "\<bar>roundf x - x\<bar> \<le> 1 / 2"
proof (cases "0 \<le> x")
  case True
  then have "roundf x = of_int \<lfloor>x + 1 / 2\<rfloor>"
    by (simp add: roundf_def)
  with floor_half_bounds [of x] show ?thesis
    by linarith
next
  case False
  then have "roundf x = - of_int \<lfloor>- x + 1 / 2\<rfloor>"
    by (simp add: roundf_def)
  with floor_half_bounds [of "- x"] show ?thesis
    by linarith
qed



lemma calc_color_temperature_day:
  assumes "sunrise \<le> now" "now \<le> sunset"
  shows "calc_color_temperature now sunrise sunset y_min y_max sp
     = roundf (smooth_transition (real_of_int (now - sunrise) / real_of_int (sunset - sunrise))
                 y_min y_max sp * 10) / 10"
proof -
  have "\<not> (now < sunrise \<or> now > sunset)"
    using assms by linarith
  then show ?thesis
    by (simp only: calc_color_temperature_def Let_def if_False)
qed

lemma position_noon:
  assumes "sunrise < sunset" "2 * now = sunrise + sunset"
  shows "real_of_int (now - sunrise) / real_of_int (sunset - sunrise) = 1 / 2"
proof -
  have "sunset - sunrise = 2 * (now - sunrise)"
    using assms(2) by (simp add: algebra_simps)
  then have "real_of_int (sunset - sunrise) = 2 * real_of_int (now - sunrise)"
    by (simp only: of_int_mult of_int_numeral)
  moreover have "real_of_int (now - sunrise) \<noteq> 0"
    using assms by simp
  ultimately show ?thesis by simp
qed

lemma calc_at_sunrise:
  assumes "sunrise < sunset"
  shows "calc_color_temperature sunrise sunrise sunset y_min y_max sp
     = roundf ((y_min + (y_max - y_min) * y2) * 10) / 10"
proof -
  have "real_of_int (sunrise - sunrise) / real_of_int (sunset - sunrise) = 0"
    by simp
  with assms show ?thesis
    by (simp only: calc_color_temperature_day [of sunrise sunrise sunset] order_refl less_imp_le
        smooth_transition_0)
qed

lemma calc_at_sunset:
  assumes "sunrise < sunset"
  shows "calc_color_temperature sunset sunrise sunset y_min y_max sp
     = roundf ((y_min + (y_max - y_min) * y2) * 10) / 10"
proof -
  have "real_of_int (sunset - sunrise) / real_of_int (sunset - sunrise) = 1"
    using assms by simp
  with assms show ?thesis
    by (simp only: calc_color_temperature_day [of sunrise sunset sunset] order_refl less_imp_le
        smooth_transition_1)
qed

lemma calc_at_noon:
  assumes "sunrise < sunset" "2 * now = sunrise + sunset" "0 < sp"
  shows "calc_color_temperature now sunrise sunset y_min y_max sp
     = roundf ((y_min + (y_max - y_min) * y1) * 10) / 10"
proof -
  have "sunrise \<le> now" "now \<le> sunset"
    using assms by linarith+
  then show ?thesis
    by (simp only: calc_color_temperature_day position_noon [OF assms(1,2)]
        smooth_transition_noon [OF assms(3)])
qed

lemma tenth_close: "\<bar>roundf (m * 10) / 10 - m\<bar> \<le> 1 / 20"
  using roundf_close [of "m * 10"] by linarith

lemma tenth_near:
  assumes "\<bar>m - y\<bar> \<le> d"
  shows "\<bar>roundf (m * 10) / 10 - y\<bar> \<le> d + 1 / 20"
proof -
  define r where "r = roundf (m * 10) / 10"
  have "\<bar>r - m\<bar> \<le> 1 / 20"
    unfolding r_def by (rule tenth_close)
  with assms have "\<bar>r - y\<bar> \<le> d + 1 / 20"
    by linarith
  then show ?thesis by (simp only: r_def)
qed




subsection \<open>Properties of the curve\<close>

text \<open>
  Claim C5. Outside the daylight window, that is for \<open>now < sunrise\<close> or \<open>now > sunset\<close>, the
  target temperature is \<open>max_mireds\<close> exactly, whatever \<open>min_mireds\<close> and \<open>speed\<close> are.
\<close>

theorem calc_color_temperature_night:
  assumes "now < sunrise \<or> now > sunset"
  shows "calc_color_temperature now sunrise sunset y_min y_max sp = y_max"
  using assms by (simp add: calc_color_temperature_def)

theorem calc_color_temperature_night_witness:
  "((82800::int) < 21600 \<or> (82800::int) > 64800)
     \<and> calc_color_temperature 82800 21600 64800 153 500 1 = 500"
  using calc_color_temperature_night [of 82800 21600 64800 153 500 1] by simp

text \<open>
  Claim C2, as stated, fails: at sunrise the curve is at its warm end, not at \<open>min_mireds\<close>.
  With the bounds 153 and 500, sunrise at 06:00 and sunset at 18:00, the target at 06:00 is
  499.7, which is not within 0.01 percent of the range of 153.
\<close>

theorem calc_color_temperature_sunrise_counterexample:
  "\<not> (\<bar>calc_color_temperature 21600 21600 64800 153 500 1 - 153\<bar> \<le> (500 - 153) * (1 / 10000)
      \<and> \<bar>calc_color_temperature 64800 21600 64800 153 500 1 - 500\<bar> \<le> (500 - 153) * (1 / 1000))"
  by (simp add: calc_at_sunrise y2_def roundf_def)

text \<open>
  Claim C2, amended. For \<open>min_mireds \<le> max_mireds\<close> and \<open>sunrise < sunset\<close>, the target
  at both ends of the window, \<open>now = sunrise\<close> and \<open>now = sunset\<close>, is within 0.1 percent
  of the range, plus 0.1 for the rounding to one decimal place, of \<open>max_mireds\<close>.
\<close>

theorem calc_color_temperature_endpoints:
  assumes "y_min \<le> y_max" "sunrise < sunset"
  shows "\<bar>calc_color_temperature sunrise sunrise sunset y_min y_max sp - y_max\<bar>
           \<le> (y_max - y_min) / 1000 + 1 / 10
       \<and> \<bar>calc_color_temperature sunset sunrise sunset y_min y_max sp - y_max\<bar>
           \<le> (y_max - y_min) / 1000 + 1 / 10"
proof -
  let ?m = "y_max - (y_max - y_min) / 1000"
  have m: "y_min + (y_max - y_min) * y2 = ?m"
    by (simp add: y2_def field_simps)
  have rise: "calc_color_temperature sunrise sunrise sunset y_min y_max sp = roundf (?m * 10) / 10"
    by (simp only: calc_at_sunrise [OF assms(2)] m)
  have set: "calc_color_temperature sunset sunrise sunset y_min y_max sp = roundf (?m * 10) / 10"
    by (simp only: calc_at_sunset [OF assms(2)] m)
  have "\<bar>roundf (?m * 10) / 10 - y_max\<bar> \<le> (y_max - y_min) / 1000 + 1 / 20"
  proof (rule tenth_near)
    have "0 \<le> (y_max - y_min) / 1000"
      using assms(1) by simp
    then show "\<bar>?m - y_max\<bar> \<le> (y_max - y_min) / 1000"
      by simp
  qed
  then have near: "\<bar>roundf (?m * 10) / 10 - y_max\<bar> \<le> (y_max - y_min) / 1000 + 1 / 10"
    by simp
  show ?thesis
    unfolding rise set using near by blast
qed

theorem calc_color_temperature_endpoints_witness:
  "\<bar>calc_color_temperature 21600 21600 64800 153 500 1 - 500\<bar> \<le> (500 - 153) / 1000 + 1 / 10
     \<and> \<bar>calc_color_temperature 64800 21600 64800 153 500 1 - 500\<bar> \<le> (500 - 153) / 1000 + 1 / 10"
  using calc_color_temperature_endpoints [of 153 500 21600 64800 1]
  by simp

text \<open>
  Claim C3, as stated, fails: at solar noon the curve is at its cool end, not in the middle
  of the range. With the bounds 153 and 500, sunrise at 06:00 and sunset at 18:00, the target
  at 12:00 is 153.0, not 326.5.
\<close>

theorem calc_color_temperature_noon_counterexample:
  "calc_color_temperature 43200 21600 64800 153 500 1 = 153
     \<and> \<not> \<bar>calc_color_temperature 43200 21600 64800 153 500 1 - (153 + 500) / 2\<bar> \<le> 1 / 20"
  by (simp add: calc_at_noon y1_def roundf_def)

text \<open>
  Claim C3, amended. For \<open>min_mireds \<le> max_mireds\<close>, \<open>sunrise < sunset\<close> and \<open>speed > 0\<close>,
  the target at the midpoint of the window, \<open>2 * now = sunrise + sunset\<close>, is at the minimum
  of the curve: within 0.01 percent of the range, plus 0.1 for the rounding to one decimal
  place, of \<open>min_mireds\<close>.
\<close>

theorem calc_color_temperature_noon:
  assumes "y_min \<le> y_max" "sunrise < sunset" "0 < sp" "2 * now = sunrise + sunset"
  shows "\<bar>calc_color_temperature now sunrise sunset y_min y_max sp - y_min\<bar>
           \<le> (y_max - y_min) / 10000 + 1 / 10"
proof -
  let ?m = "y_min + (y_max - y_min) / 100000"
  have m: "y_min + (y_max - y_min) * y1 = ?m"
    by (simp add: y1_def)
  have noon: "calc_color_temperature now sunrise sunset y_min y_max sp = roundf (?m * 10) / 10"
    by (simp only: calc_at_noon [OF assms(2,4,3)] m)
  have "\<bar>roundf (?m * 10) / 10 - y_min\<bar> \<le> (y_max - y_min) / 100000 + 1 / 20"
  proof (rule tenth_near)
    have "0 \<le> (y_max - y_min) / 100000"
      using assms(1) by simp
    then show "\<bar>?m - y_min\<bar> \<le> (y_max - y_min) / 100000"
      by simp
  qed
  moreover have "(y_max - y_min) / 100000 \<le> (y_max - y_min) / 10000"
    using assms(1) by simp
  ultimately have "\<bar>roundf (?m * 10) / 10 - y_min\<bar> \<le> (y_max - y_min) / 10000 + 1 / 10"
    by linarith
  then show ?thesis
    unfolding noon .
qed

theorem calc_color_temperature_noon_witness:
  "\<bar>calc_color_temperature 43200 21600 64800 153 500 1 - 153\<bar> \<le> (500 - 153) / 10000 + 1 / 10"
  using calc_color_temperature_noon [of 153 500 21600 64800 1 43200]
  by simp




subsection \<open>Facts about the controller\<close>

lemmas scenario_defs =
  scenario_component_def scenario_light_def scenario_sun_def polar_sun_def

lemma update_None: "light w = None \<or> sun w = None \<Longrightarrow> update w c = (c, [])"
  by (auto simp add: update_def split: option.splits)

lemma update_Some:
  assumes "light w = Some l" "sun w = Some s"
  shows "update w c =
    (if \<not> state c then (c, [])
     else if \<not> is_on l then (c, [])
     else
       (case sun_sunrise s of
          None \<Rightarrow> (c, [])
        | Some sunrise_ts \<Rightarrow>
       (case sun_sunset s of
          None \<Rightarrow> (c, [])
        | Some sunset_ts \<Rightarrow>
            let mireds = calc_color_temperature3 c (sun_now s) sunrise_ts sunset_ts
            in if \<bar>mireds - last_requested_color_temp c\<bar> < 0.1 then (c, [])
               else
                 (c\<lparr>last_requested_color_temp := mireds\<rparr>,
                  [\<lparr>set_color_temperature = mireds,
                    set_brightness = get_brightness l,
                    set_transition_length =
                      (if transition_length c > 0 then Some (transition_length c)
                       else None)\<rparr>]))))"
  using assms by (simp add: update_def)

lemma update_cases:
  assumes "update w c = (c', calls)"
  obtains (skip) "c' = c" "calls = []"
  | (command) l s sunrise_ts sunset_ts where
      "light w = Some l" "sun w = Some s" "state c" "is_on l"
      "sun_sunrise s = Some sunrise_ts" "sun_sunset s = Some sunset_ts"
      "\<not> \<bar>calc_color_temperature3 c (sun_now s) sunrise_ts sunset_ts - last_requested_color_temp c\<bar> < 0.1"
      "c' = c\<lparr>last_requested_color_temp := calc_color_temperature3 c (sun_now s) sunrise_ts sunset_ts\<rparr>"
      "calls = [\<lparr>set_color_temperature = calc_color_temperature3 c (sun_now s) sunrise_ts sunset_ts,
                 set_brightness = get_brightness l,
                 set_transition_length =
                   (if transition_length c > 0 then Some (transition_length c) else None)\<rparr>]"
proof (cases "light w")
  case None
  with assms skip show ?thesis by (simp add: update_None)
next
  case l: (Some l)
  show ?thesis
  proof (cases "sun w")
    case None
    with assms skip show ?thesis by (simp add: update_None)
  next
    case s: (Some s)
    note u = assms [unfolded update_Some [OF l s]]
    show ?thesis
    proof (cases "state c \<and> is_on l")
      case False
      with u skip show ?thesis by (auto split: if_splits)
    next
      case on: True
      show ?thesis
      proof (cases "sun_sunrise s")
        case None
        with u on skip show ?thesis by simp
      next
        case sr: (Some sunrise_ts)
        show ?thesis
        proof (cases "sun_sunset s")
          case None
          with u on sr skip show ?thesis by simp
        next
          case ss: (Some sunset_ts)
          show ?thesis
          proof (cases "\<bar>calc_color_temperature3 c (sun_now s) sunrise_ts sunset_ts - last_requested_color_temp c\<bar> < 0.1")
            case True
            with u on sr ss skip show ?thesis by simp
          next
            case False
            with u on sr ss have "c' = c\<lparr>last_requested_color_temp := calc_color_temperature3 c (sun_now s) sunrise_ts sunset_ts\<rparr>"
              "calls = [\<lparr>set_color_temperature = calc_color_temperature3 c (sun_now s) sunrise_ts sunset_ts,
                 set_brightness = get_brightness l,
                 set_transition_length =
                   (if transition_length c > 0 then Some (transition_length c) else None)\<rparr>]"
              by (simp_all add: Let_def)
            with l s on sr ss False show ?thesis
              by (intro command [of l s sunrise_ts sunset_ts]) simp_all
          qed
        qed
      qed
    qed
  qed
qed

lemma update_command:
  assumes "light w = Some l" "sun w = Some s" "state c" "is_on l"
    and "sun_sunrise s = Some sunrise_ts" "sun_sunset s = Some sunset_ts"
    and "0.1 \<le> \<bar>calc_color_temperature3 c (sun_now s) sunrise_ts sunset_ts - last_requested_color_temp c\<bar>"
  shows "update w c =
     (c\<lparr>last_requested_color_temp := calc_color_temperature3 c (sun_now s) sunrise_ts sunset_ts\<rparr>,
      [\<lparr>set_color_temperature = calc_color_temperature3 c (sun_now s) sunrise_ts sunset_ts,
        set_brightness = get_brightness l,
        set_transition_length =
          (if transition_length c > 0 then Some (transition_length c) else None)\<rparr>])"
  using assms by (simp add: update_Some Let_def)

lemma calc_color_temperature_lower:
  assumes "y_min \<le> y_max"
  shows "y_min - 1 / 20 \<le> calc_color_temperature now sunrise sunset y_min y_max sp"
proof (cases "now < sunrise \<or> now > sunset")
  case True
  then have "calc_color_temperature now sunrise sunset y_min y_max sp = y_max"
    by (simp add: calc_color_temperature_def)
  with assms show ?thesis by simp
next
  case False
  let ?m = "smooth_transition (real_of_int (now - sunrise) / real_of_int (sunset - sunrise))
              y_min y_max sp"
  from False have eq: "calc_color_temperature now sunrise sunset y_min y_max sp = roundf (?m * 10) / 10"
    by (intro calc_color_temperature_day) simp_all
  have "y_min \<le> ?m"
    using assms by (rule smooth_transition_bounds(1))
  moreover have "\<bar>roundf (?m * 10) / 10 - ?m\<bar> \<le> 1 / 20"
    by (rule tenth_close)
  ultimately show ?thesis
    unfolding eq by linarith
qed

lemma update_from_unset:
  assumes "light w = Some l" "sun w = Some s" "state c" "is_on l"
    and "sun_sunrise s = Some sunrise_ts" "sun_sunset s = Some sunset_ts"
    and "1 \<le> min_mireds c" "min_mireds c \<le> max_mireds c"
    and "last_requested_color_temp c = 0"
  shows "\<exists>t. update w c =
     (c\<lparr>last_requested_color_temp := t\<rparr>,
      [\<lparr>set_color_temperature = t,
        set_brightness = get_brightness l,
        set_transition_length =
          (if transition_length c > 0 then Some (transition_length c) else None)\<rparr>])"
proof -
  let ?t = "calc_color_temperature3 c (sun_now s) sunrise_ts sunset_ts"
  have "min_mireds c - 1 / 20 \<le> ?t"
    unfolding calc_color_temperature3_def
    using assms(8) by (rule calc_color_temperature_lower)
  with assms(7) have "0.1 \<le> \<bar>?t - last_requested_color_temp c\<bar>"
    by (simp add: assms(9))
  from update_command [OF assms(1-6) this] show ?thesis
    by blast
qed

lemma update_disabled: "\<not> state c \<Longrightarrow> update w c = (c, [])"
  by (cases "light w"; cases "sun w") (simp_all add: update_None update_Some)

lemma update_config:
  assumes "update w c = (c', calls)"
  shows "c'\<lparr>last_requested_color_temp := 0\<rparr> = c\<lparr>last_requested_color_temp := 0\<rparr>"
  using assms by (cases rule: update_cases) simp_all

lemma write_state_False:
  assumes "state c"
  shows "write_state w False c = (c\<lparr>last_requested_color_temp := 0, state := False\<rparr>, [])"
  using assms
  by (simp add: write_state_def force_next_update_def publish_state_def update_disabled)

lemma write_state_True:
  assumes "\<not> state c" "update w (c\<lparr>last_requested_color_temp := 0, state := True\<rparr>) = (c3, calls)"
  shows "write_state w True c = (c\<lparr>last_requested_color_temp := 0, state := True\<rparr>, calls)"
proof -
  have "write_state w True c = (c3\<lparr>last_requested_color_temp := 0\<rparr>, calls)"
    using assms by (simp add: write_state_def force_next_update_def publish_state_def)
  also have "c3\<lparr>last_requested_color_temp := 0\<rparr> = c\<lparr>last_requested_color_temp := 0, state := True\<rparr>"
    using update_config [OF assms(2)] by simp
  finally show ?thesis .
qed

lemma scenario_update_23:
  "update \<lparr>light = Some (scenario_light True x), sun = Some (scenario_sun 82800)\<rparr>
      (scenario_component True 0 p)
    = (scenario_component True 500 p,
       [\<lparr>set_color_temperature = 500, set_brightness = 1, set_transition_length = Some 1000\<rparr>])"
  by (simp add: update_Some scenario_defs calc_color_temperature3_def calc_color_temperature_def)

lemma scenario_turn_on_23:
  "handle_light_state_change
      \<lparr>light = Some (scenario_light True 300), sun = Some (scenario_sun 82800)\<rparr>
      (scenario_component False (653 / 2) False)
    = (scenario_component True 0 True,
       [\<lparr>set_color_temperature = 500, set_brightness = 1, set_transition_length = Some 1000\<rparr>])"
  by (simp add: handle_light_state_change_def write_state_def force_next_update_def
      publish_state_def update_Some calc_color_temperature3_def calc_color_temperature_def
      scenario_defs)

subsection \<open>Properties of the controller\<close>

text \<open>
  Claim C9. \<^verbatim>\<open>update\<close> performs no light call and leaves the whole component unchanged,
  the last requested temperature included, whenever a precondition fails: the light or the
  sun is absent, the switch is off, the light is off, or today's sunrise or sunset cannot
  be determined.
\<close>

theorem update_skips:
  assumes "light w = None \<or> sun w = None \<or> \<not> state c
         \<or> (\<exists>l. light w = Some l \<and> \<not> is_on l)
         \<or> (\<exists>s. sun w = Some s \<and> (sun_sunrise s = None \<or> sun_sunset s = None))"
  shows "update w c = (c, [])"
proof (cases "light w")
  case None
  then show ?thesis by (simp add: update_None)
next
  case l: (Some l)
  show ?thesis
  proof (cases "sun w")
    case None
    then show ?thesis by (simp add: update_None)
  next
    case s: (Some s)
    from assms l s have "\<not> state c \<or> \<not> is_on l \<or> sun_sunrise s = None \<or> sun_sunset s = None"
      by auto
    then show ?thesis
      by (auto simp add: update_Some [OF l s] split: option.splits)
  qed
qed

theorem update_skips_witness:
  "update \<lparr>light = Some (scenario_light False 300), sun = Some (scenario_sun 43200)\<rparr>
      (scenario_component True 0 False)
    = (scenario_component True 0 False, [])"
  using update_skips [of "\<lparr>light = Some (scenario_light False 300), sun = Some (scenario_sun 43200)\<rparr>"
      "scenario_component True 0 False"]
  by (simp add: scenario_defs)

text \<open>
  Claim C10. When \<^verbatim>\<open>handle_light_state_change\<close> observes the light off, the only field it
  changes is the previous light state, which becomes false: the switch state and the last
  requested temperature stay as they are and no light call is performed, whatever the
  switch state, the restore mode and the observed colour are.
\<close>

theorem light_off_frame:
  assumes "light w = Some l" "\<not> is_on l"
  shows "handle_light_state_change w c = (c\<lparr>previous_light_state := False\<rparr>, [])"
  using assms by (simp add: handle_light_state_change_def)

theorem light_off_frame_witness:
  "handle_light_state_change
      \<lparr>light = Some (scenario_light False 400), sun = Some (scenario_sun 43200)\<rparr>
      (scenario_component True (653 / 2) True)
    = (scenario_component True (653 / 2) False, [])"
  using light_off_frame [of "\<lparr>light = Some (scenario_light False 400), sun = Some (scenario_sun 43200)\<rparr>"
      "scenario_light False 400" "scenario_component True (653 / 2) True"]
  by (simp add: scenario_defs)

text \<open>
  Claim C1. If \<^verbatim>\<open>update\<close> performs a light call with colour temperature \<open>t\<close>, the last
  requested temperature is \<open>t\<close> afterwards, and a following \<^verbatim>\<open>handle_light_state_change\<close>
  that observes the light on with a colour within 0.1 of \<open>t\<close> does not switch the component
  off: the switch state stays true, no light call is performed, and only the previous light
  state is set.
\<close>

theorem echo_keeps_enabled:
  assumes "update w c = (c', calls)" "call \<in> set calls"
    and "light w' = Some l'" "is_on l'"
    and "\<bar>get_color_temperature l' - set_color_temperature call\<bar> \<le> 0.1"
  shows "last_requested_color_temp c' = set_color_temperature call
       \<and> state c'
       \<and> handle_light_state_change w' c' = (c'\<lparr>previous_light_state := True\<rparr>, [])"
  using assms(1)
proof (cases rule: update_cases)
  case skip
  with assms(2) show ?thesis by simp
next
  case (command l s sunrise_ts sunset_ts)
  with assms(2) have t: "last_requested_color_temp c' = set_color_temperature call" and st: "state c'"
    by simp_all
  have "\<not> \<bar>get_color_temperature l' - last_requested_color_temp c'\<bar> > 0.1"
    using assms(5) t by simp
  with st assms(3,4) have "handle_light_state_change w' c' = (c'\<lparr>previous_light_state := True\<rparr>, [])"
    by (simp add: handle_light_state_change_def)
  with t st show ?thesis by simp
qed

theorem echo_keeps_enabled_witness:
  "handle_light_state_change
      \<lparr>light = Some (scenario_light True 500), sun = Some (scenario_sun 82800)\<rparr>
      (fst (update \<lparr>light = Some (scenario_light True 300), sun = Some (scenario_sun 82800)\<rparr>
              (scenario_component True 0 True)))
    = (scenario_component True 500 True, [])"
  using echo_keeps_enabled
    [of "\<lparr>light = Some (scenario_light True 300), sun = Some (scenario_sun 82800)\<rparr>"
      "scenario_component True 0 True" "scenario_component True 500 True"
      "[\<lparr>set_color_temperature = 500, set_brightness = 1, set_transition_length = Some 1000\<rparr>]"
      "\<lparr>set_color_temperature = 500, set_brightness = 1, set_transition_length = Some 1000\<rparr>"
      "\<lparr>light = Some (scenario_light True 500), sun = Some (scenario_sun 82800)\<rparr>"
      "scenario_light True 500"]
  by (simp add: scenario_update_23) (simp add: scenario_defs)

text \<open>
  Claim C4. With the light on, the switch on and a last requested temperature above 0:
  if the observed colour differs from the last requested one by more than 0.1,
  \<^verbatim>\<open>handle_light_state_change\<close> switches the component off; if it differs by at most 0.1,
  the switch state is left as it is.
\<close>

theorem external_change_disables:
  assumes "light w = Some l" "is_on l" "state c" "last_requested_color_temp c > 0"
  shows "(\<bar>get_color_temperature l - last_requested_color_temp c\<bar> > 0.1
            \<longrightarrow> \<not> state (fst (handle_light_state_change w c)))
       \<and> (\<bar>get_color_temperature l - last_requested_color_temp c\<bar> \<le> 0.1
            \<longrightarrow> state (fst (handle_light_state_change w c)) = state c)"
  using assms by (simp add: handle_light_state_change_def write_state_False)

theorem external_change_disables_witness:
  "\<not> state (fst (handle_light_state_change
        \<lparr>light = Some (scenario_light True 400), sun = Some (scenario_sun 43200)\<rparr>
        (scenario_component True (653 / 2) True)))
   \<and> state (fst (handle_light_state_change
        \<lparr>light = Some (scenario_light True (653 / 2)), sun = Some (scenario_sun 43200)\<rparr>
        (scenario_component True (653 / 2) True)))"
  using external_change_disables
      [of "\<lparr>light = Some (scenario_light True 400), sun = Some (scenario_sun 43200)\<rparr>"
        "scenario_light True 400" "scenario_component True (653 / 2) True"]
    external_change_disables
      [of "\<lparr>light = Some (scenario_light True (653 / 2)), sun = Some (scenario_sun 43200)\<rparr>"
        "scenario_light True (653 / 2)" "scenario_component True (653 / 2) True"]
  by (simp add: scenario_defs)

text \<open>
  Claim C8, as stated, fails: the turn-on sequence does not perform exactly one light call.
  With the restore mode always-on and the switch off, the light turns on at 23:00 of a day
  with sunrise at 06:00 and sunset at 18:00: \<^verbatim>\<open>handle_light_state_change\<close> switches the
  component on and performs a light call at once, through the \<^verbatim>\<open>update\<close> inside
  \<^verbatim>\<open>write_state\<close>, and the following \<^verbatim>\<open>handle_target_state_reached\<close> performs a second
  one: two light calls for the sequence. On a day whose sunrise and sunset cannot be
  determined the component switches itself on as well, but neither of the two performs a
  light call.
\<close>

theorem turn_on_sequence_counterexample:
  "restore_mode (scenario_component False 0 False) = SWITCH_ALWAYS_ON
   \<and> \<not> state (scenario_component False 0 False)
   \<and> \<not> previous_light_state (scenario_component False 0 False)
   \<and> handle_light_state_change
        \<lparr>light = Some (scenario_light True 300), sun = Some (scenario_sun 82800)\<rparr>
        (scenario_component False 0 False)
       = (scenario_component True 0 True,
          [\<lparr>set_color_temperature = 500, set_brightness = 1, set_transition_length = Some 1000\<rparr>])
   \<and> handle_target_state_reached
        \<lparr>light = Some (scenario_light True 500), sun = Some (scenario_sun 82800)\<rparr>
        (scenario_component True 0 True)
       = (scenario_component True 500 True,
          [\<lparr>set_color_temperature = 500, set_brightness = 1, set_transition_length = Some 1000\<rparr>])
   \<and> handle_light_state_change
        \<lparr>light = Some (scenario_light True 300), sun = Some (polar_sun 43200)\<rparr>
        (scenario_component False 0 False)
       = (scenario_component True 0 True, [])
   \<and> handle_target_state_reached
        \<lparr>light = Some (scenario_light True 300), sun = Some (polar_sun 43200)\<rparr>
        (scenario_component True 0 True)
       = (scenario_component True 0 True, [])"
  by (simp add: handle_light_state_change_def handle_target_state_reached_def write_state_def
      update_Some force_next_update_def publish_state_def calc_color_temperature3_def
      calc_color_temperature_def scenario_defs)

text \<open>
  Claim C8, amended. With the restore mode always-on and the switch off, a range
  \<open>1 \<le> min_mireds \<le> max_mireds\<close>, \<open>speed > 0\<close>, and the sun present with today's sunrise
  before today's sunset at both notifications: when \<^verbatim>\<open>handle_light_state_change\<close> observes
  the light on after it was off, the component switches itself on and performs one light
  call at once; when \<^verbatim>\<open>handle_target_state_reached\<close> follows with the light on, it performs
  exactly one more light call, whose colour temperature is the one then recorded as last
  requested. The turn-on sequence performs two light calls.
\<close>

theorem turn_on_sequence:
  assumes "restore_mode c = SWITCH_ALWAYS_ON" "\<not> state c" "\<not> previous_light_state c"
    and "1 \<le> min_mireds c" "min_mireds c \<le> max_mireds c" "0 < speed c"
    and "light w = Some l" "is_on l" "sun w = Some s"
    and "sun_sunrise s = Some sunrise_ts" "sun_sunset s = Some sunset_ts" "sunrise_ts < sunset_ts"
    and "light w' = Some l'" "is_on l'" "sun w' = Some s'"
    and "sun_sunrise s' = Some sunrise_ts'" "sun_sunset s' = Some sunset_ts'"
        "sunrise_ts' < sunset_ts'"
    and "handle_light_state_change w c = (c1, calls1)"
    and "handle_target_state_reached w' c1 = (c2, calls2)"
  shows "state c1 \<and> length calls1 = 1
       \<and> state c2
       \<and> calls2 = [\<lparr>set_color_temperature = last_requested_color_temp c2,
                    set_brightness = get_brightness l',
                    set_transition_length =
                      (if transition_length c > 0 then Some (transition_length c) else None)\<rparr>]"
proof -
  let ?c0 = "c\<lparr>last_requested_color_temp := 0, state := True\<rparr>"
  have "\<exists>t. update w ?c0 =
     (?c0\<lparr>last_requested_color_temp := t\<rparr>,
      [\<lparr>set_color_temperature = t,
        set_brightness = get_brightness l,
        set_transition_length =
          (if transition_length ?c0 > 0 then Some (transition_length ?c0) else None)\<rparr>])"
    using assms(7,9,8,10,11) assms(4,5) by (intro update_from_unset) simp_all
  then obtain c3 call where u: "update w ?c0 = (c3, [call])"
    by blast
  have "handle_light_state_change w c = (?c0\<lparr>previous_light_state := True\<rparr>, [call])"
    using assms(1,2,3,7,8)
    by (simp add: handle_light_state_change_def write_state_True [OF assms(2) u])
  with assms(19) have c1: "c1 = ?c0\<lparr>previous_light_state := True\<rparr>" and calls1: "calls1 = [call]"
    by simp_all
  have st: "state c1" "previous_light_state c1" "last_requested_color_temp c1 = 0"
    "transition_length c1 = transition_length c"
    "1 \<le> min_mireds c1" "min_mireds c1 \<le> max_mireds c1"
    using assms(4,5) by (simp_all add: c1)
  from update_from_unset [OF assms(13,15) st(1) assms(14,16,17) st(5,6,3)]
  obtain t where "update w' c1 =
     (c1\<lparr>last_requested_color_temp := t\<rparr>,
      [\<lparr>set_color_temperature = t,
        set_brightness = get_brightness l',
        set_transition_length =
          (if transition_length c > 0 then Some (transition_length c) else None)\<rparr>])"
    unfolding st(4) by blast
  then have "handle_target_state_reached w' c1 =
     (c1\<lparr>last_requested_color_temp := t\<rparr>,
      [\<lparr>set_color_temperature = t,
        set_brightness = get_brightness l',
        set_transition_length =
          (if transition_length c > 0 then Some (transition_length c) else None)\<rparr>])"
    using assms(13) st(1,2) by (simp add: handle_target_state_reached_def)
  with assms(20) have c2: "c2 = c1\<lparr>last_requested_color_temp := t\<rparr>"
    and calls2: "calls2 = [\<lparr>set_color_temperature = t,
        set_brightness = get_brightness l',
        set_transition_length =
          (if transition_length c > 0 then Some (transition_length c) else None)\<rparr>]"
    by simp_all
  have "state c2" "last_requested_color_temp c2 = t"
    using st(1) by (simp_all add: c2)
  with st(1) calls1 calls2 show ?thesis
    by simp
qed

theorem turn_on_sequence_witness:
  "state (scenario_component True 0 True)
   \<and> length [\<lparr>set_color_temperature = 500, set_brightness = 1,
                set_transition_length = Some (1000::int)\<rparr>] = 1
   \<and> state (scenario_component True 500 True)
   \<and> [\<lparr>set_color_temperature = 500, set_brightness = 1, set_transition_length = Some 1000\<rparr>]
       = [\<lparr>set_color_temperature = last_requested_color_temp (scenario_component True 500 True),
           set_brightness = get_brightness (scenario_light True 500),
           set_transition_length =
             (if transition_length (scenario_component False (653 / 2) False) > 0
              then Some (transition_length (scenario_component False (653 / 2) False))
              else None)\<rparr>]"
proof (rule turn_on_sequence
    [of "scenario_component False (653 / 2) False"
      "\<lparr>light = Some (scenario_light True 300), sun = Some (scenario_sun 82800)\<rparr>"
      "scenario_light True 300" "scenario_sun 82800" 21600 64800
      "\<lparr>light = Some (scenario_light True 500), sun = Some (scenario_sun 82800)\<rparr>"
      "scenario_light True 500" "scenario_sun 82800" 21600 64800
      "scenario_component True 0 True"
      "[\<lparr>set_color_temperature = 500, set_brightness = 1, set_transition_length = Some 1000\<rparr>]"
      "scenario_component True 500 True"
      "[\<lparr>set_color_temperature = 500, set_brightness = 1, set_transition_length = Some 1000\<rparr>]"])
  show "handle_light_state_change
      \<lparr>light = Some (scenario_light True 300), sun = Some (scenario_sun 82800)\<rparr>
      (scenario_component False (653 / 2) False)
    = (scenario_component True 0 True,
       [\<lparr>set_color_temperature = 500, set_brightness = 1, set_transition_length = Some 1000\<rparr>])"
    by (rule scenario_turn_on_23)
  show "handle_target_state_reached
      \<lparr>light = Some (scenario_light True 500), sun = Some (scenario_sun 82800)\<rparr>
      (scenario_component True 0 True)
    = (scenario_component True 500 True,
       [\<lparr>set_color_temperature = 500, set_brightness = 1, set_transition_length = Some 1000\<rparr>])"
    by (simp add: handle_target_state_reached_def update_Some calc_color_temperature3_def
        calc_color_temperature_def scenario_defs)
qed (simp_all add: scenario_defs)

end
